theory Spec2Isabelle
  imports Complex_Main
begin

section \<open>Data model\<close>

text \<open>
  The repository holds three variants of one React component file. The current one is the
  first half of \<^verbatim>\<open>src/signature-player.js\<close> (multi-segment traces, abortable fetch,
  \<^verbatim>\<open>loop\<close> option); its definitions carry the source's names. The variant in
  \<^verbatim>\<open>src/unnamed/part_000\<close> (single mask path, \<^verbatim>\<open>loop\<close> option, no abort) is
  suffixed \<open>_p0\<close>. The oldest one, the second half of \<^verbatim>\<open>src/signature-player.js\<close>, has
  the renderer and the fetch effect of \<^verbatim>\<open>src/unnamed/part_000\<close> with the constant
  \<^verbatim>\<open>CONFIG\<close> in place of the \<^verbatim>\<open>config\<close> prop, and a controller without the
  \<^verbatim>\<open>loop\<close> option; it is not modelled separately.

  A JavaScript number is modelled by the rational it denotes (\<^typ>\<open>rat\<close>) for lengths,
  durations and times, and by an \<^typ>\<open>int\<close> for stroke indices, the step cursor and the
  direction (\<open>1\<close> writes, \<open>-1\<close> erases). The arithmetic of the renderer rounds as IEEE
  doubles do (section on double arithmetic); the sums of timer delays in the controller are
  kept exact. A value that may be \<^verbatim>\<open>undefined\<close> is an \<open>option\<close>.
\<close>

record config =
  loop :: bool
  duration :: rat
  delay :: rat
  loopDelay :: rat
  eraseDelay :: rat

definition DEFAULT_CONFIG :: config where
  "DEFAULT_CONFIG =
     \<lparr>loop = True, duration = 1000, delay = 100, loopDelay = 2000, eraseDelay = 500\<rparr>"

text \<open>One entry of \<^verbatim>\<open>rawStrokes\<close>, and one entry of \<^verbatim>\<open>recordedStrokes\<close>.\<close>

record rawStroke =
  rs_d :: "string option"
  rs_width :: "rat option"

record recordedStroke =
  rsd_d :: "string option"
  rsd_width :: "rat option"
  rsd_rawStrokes :: "rawStroke list option"

text \<open>An element of the component's \<^verbatim>\<open>segments\<close> state.\<close>

record segment =
  seg_d :: "string option"
  seg_width :: rat
  seg_len :: rat
  seg_duration :: rat
  seg_delay :: rat

text \<open>
  What the component returns. The CSS \<^verbatim>\<open>animation\<close> of a mask path is \<^verbatim>\<open>none\<close>,
  \<^verbatim>\<open>dash <duration>ms linear forwards <delay>ms\<close> or
  \<^verbatim>\<open>undash <duration>ms linear forwards <delay>ms\<close>. The mask id (from \<^verbatim>\<open>useId\<close>) and the
  constant attributes are left out.
\<close>

datatype animation = NoAnimation | Dash rat rat | Undash rat rat

record mask_path =
  mp_d :: "string option"
  mp_strokeWidth :: rat
  mp_strokeDasharray :: rat
  mp_strokeDashoffset :: rat
  mp_animation :: animation
  mp_seg_len :: rat

datatype element =
    FadePath string string int rat
  | MaskedGroup "mask_path list" string string int

text \<open>
  \<open>FadePath d fill opacity ms\<close> is the plain path with \<^verbatim>\<open>transition: opacity <ms>ms\<close>;
  \<open>MaskedGroup mask d fill opacity\<close> is the outline clipped by the mask paths.
\<close>

section \<open>Double arithmetic\<close>

text \<open>
  The renderer computes with JavaScript numbers, which are IEEE 754 binary64 values: each
  operation returns the double nearest to its exact result.
\<close>

text \<open>
  The exponent of a non-zero number: \<open>2\<^sup>e \<le> \<bar>x\<bar> < 2\<^sup>e\<^sup>+\<^sup>1\<close>, by halving down to \<open>[1, 2)\<close> or
  doubling up to it.
\<close>

function exp_hi :: "rat \<Rightarrow> int" where
  "exp_hi x = (if 2 \<le> x then exp_hi (x / 2) + 1 else 0)"
  by pat_completeness auto
termination
proof (relation "measure (\<lambda>x. nat \<lfloor>x\<rfloor>)")
  show "wf (measure (\<lambda>x::rat. nat \<lfloor>x\<rfloor>))" by simp
next
  fix x :: rat
  assume x: "2 \<le> x"
  then have "x / 2 \<le> x - 1" by simp
  then have "\<lfloor>x / 2\<rfloor> \<le> \<lfloor>x - 1\<rfloor>" by (rule floor_mono)
  moreover have "2 \<le> \<lfloor>x\<rfloor>" using x by (simp add: le_floor_iff)
  ultimately show "(x / 2, x) \<in> measure (\<lambda>x. nat \<lfloor>x\<rfloor>)" by simp
qed

function exp_lo :: "rat \<Rightarrow> int" where
  "exp_lo x = (if 0 < x \<and> x < 1 then exp_lo (2 * x) - 1 else 0)"
  by pat_completeness auto
termination
proof (relation "measure (\<lambda>x. nat \<lceil>1 / x\<rceil>)")
  show "wf (measure (\<lambda>x::rat. nat \<lceil>1 / x\<rceil>))" by simp
next
  fix x :: rat
  assume x: "0 < x \<and> x < 1"
  then have y: "1 < 1 / x" by simp
  then have c: "2 \<le> \<lceil>1 / x\<rceil>" by (simp add: less_ceiling_iff)
  have "\<lceil>1 / (2 * x)\<rceil> < \<lceil>1 / x\<rceil>"
  proof (cases "2 \<le> 1 / x")
    case True
    then have "1 / (2 * x) \<le> 1 / x - 1" using x by (simp add: field_simps)
    then have "\<lceil>1 / (2 * x)\<rceil> \<le> \<lceil>1 / x - 1\<rceil>" by (rule ceiling_mono)
    then show ?thesis by simp
  next
    case False
    then have "1 / (2 * x) \<le> 1" using x by (simp add: field_simps)
    then have "\<lceil>1 / (2 * x)\<rceil> \<le> \<lceil>1 :: rat\<rceil>" by (rule ceiling_mono)
    then have "\<lceil>1 / (2 * x)\<rceil> \<le> 1" by (simp only: ceiling_one)
    with c show ?thesis by linarith
  qed
  with c have "nat \<lceil>1 / (2 * x)\<rceil> < nat \<lceil>1 / x\<rceil>" by linarith
  then show "(2 * x, x) \<in> measure (\<lambda>x. nat \<lceil>1 / x\<rceil>)" by (simp only: in_measure)
qed

declare exp_hi.simps [simp del] exp_lo.simps [simp del]

definition expo :: "rat \<Rightarrow> int" where
  "expo x = (if 1 \<le> \<bar>x\<bar> then exp_hi \<bar>x\<bar> else exp_lo \<bar>x\<bar>)"

text \<open>Rounding to the nearest integer, a tie going to the even one.\<close>

definition round_half_even :: "rat \<Rightarrow> int" where
  "round_half_even y =
     (let f = \<lfloor>y\<rfloor>; r = y - of_int f
      in if r < 1 / 2 then f else if 1 / 2 < r then f + 1 else if even f then f else f + 1)"

text \<open>
  The double nearest to a rational: a significand of 53 bits, ties to even. The exponent
  is not bounded: for magnitudes from \<open>2\<^sup>-\<^sup>1\<^sup>0\<^sup>2\<^sup>2\<close> up to the largest double this is the IEEE
  result, while overflow to infinity and the subnormal range below are not modelled.
\<close>

definition round64 :: "rat \<Rightarrow> rat" where
  "round64 x =
     (if x = 0 then 0
      else of_int (round_half_even (x / 2 powi (expo x - 52))) * 2 powi (expo x - 52))"


text \<open>
  The operators \<^verbatim>\<open>+\<close>, \<^verbatim>\<open>-\<close>, \<^verbatim>\<open>*\<close> and \<^verbatim>\<open>/\<close>. Adding or subtracting zero returns the other
  operand, as it does for every double. A zero divisor yields \<^verbatim>\<open>NaN\<close> or an infinity,
  where HOL's \<open>x / 0\<close> is \<open>0\<close>: the division is therefore partial, \<open>None\<close> stands for a
  non-finite result, and it propagates to everything computed from it.
\<close>

definition js_add :: "rat \<Rightarrow> rat \<Rightarrow> rat" where
  "js_add a b = (if a = 0 then b else if b = 0 then a else round64 (a + b))"

definition js_sub :: "rat \<Rightarrow> rat \<Rightarrow> rat" where
  "js_sub a b = (if b = 0 then a else round64 (a - b))"

definition js_mul :: "rat \<Rightarrow> rat \<Rightarrow> rat" where
  "js_mul a b = round64 (a * b)"

definition js_div :: "rat \<Rightarrow> rat \<Rightarrow> rat option" where
  "js_div a b = (if b = 0 then None else Some (round64 (a / b)))"

section \<open>Stroke renderer of \<^verbatim>\<open>src/signature-player.js\<close>\<close>

text \<open>\<^verbatim>\<open>color || "#000"\<close>: \<^verbatim>\<open>undefined\<close> and the empty string are falsy.\<close>

definition fill_of :: "string option \<Rightarrow> string" where
  "fill_of color = (case color of None \<Rightarrow> ''#000'' | Some c \<Rightarrow> if c = [] then ''#000'' else c)"

text \<open>\<^verbatim>\<open>a || b\<close> on optional numbers: \<^verbatim>\<open>undefined\<close> and \<open>0\<close> are falsy.\<close>

definition truthy_num :: "rat option \<Rightarrow> bool" where
  "truthy_num a = (case a of None \<Rightarrow> False | Some w \<Rightarrow> w \<noteq> 0)"

definition or_num :: "rat option \<Rightarrow> rat option \<Rightarrow> rat option" where
  "or_num a b = (if truthy_num a then a else b)"

definition isCompleted :: "int \<Rightarrow> int \<Rightarrow> bool" where
  "isCompleted index currentStep = (index < currentStep)"

definition isWaiting :: "int \<Rightarrow> int \<Rightarrow> bool" where
  "isWaiting index currentStep = (index > currentStep)"

definition isCurrent :: "int \<Rightarrow> int \<Rightarrow> bool" where
  "isCurrent index currentStep = (index = currentStep)"

text \<open>The fallback branch (lines 62 to 72): \<^verbatim>\<open>let opacity = 0; if ... else if ...\<close>.\<close>

definition fade_opacity :: "int \<Rightarrow> int \<Rightarrow> int \<Rightarrow> int" where
  "fade_opacity index currentStep direction =
     (if isCompleted index currentStep then 1
      else if isCurrent index currentStep \<and> direction = 1 then 1
      else 0)"

text \<open>The body of \<^verbatim>\<open>segments.map((seg, i) => ...)\<close> (lines 75 to 109).\<close>

definition maskContent :: "int \<Rightarrow> int \<Rightarrow> int \<Rightarrow> config \<Rightarrow> segment \<Rightarrow> mask_path" where
  "maskContent index currentStep direction cfg seg =
     (let (dashOffset, anim) =
        (if isCompleted index currentStep then (0, NoAnimation)
         else if isWaiting index currentStep then (seg_len seg, NoAnimation)
         else if direction = 1 then
           (seg_len seg, Dash (seg_duration seg) (seg_delay seg))
         else
           (let reverseDelay =
                  js_sub (duration cfg) (js_add (seg_delay seg) (seg_duration seg))
            in (0, Undash (seg_duration seg) reverseDelay)))
      in \<lparr>mp_d = seg_d seg, mp_strokeWidth = seg_width seg,
          mp_strokeDasharray = seg_len seg, mp_strokeDashoffset = dashOffset,
          mp_animation = anim, mp_seg_len = seg_len seg\<rparr>)"

text \<open>
  The render function of \<^verbatim>\<open>AnimatedPath\<close>: its props, and the current value of its
  \<^verbatim>\<open>segments\<close> state as the last argument.
\<close>

definition AnimatedPath ::
  "string \<Rightarrow> string option \<Rightarrow> int \<Rightarrow> int \<Rightarrow> int \<Rightarrow> recordedStroke option \<Rightarrow> config
     \<Rightarrow> segment list \<Rightarrow> element" where
  "AnimatedPath d color index currentStep direction recordedStrokeData cfg segments =
     (if recordedStrokeData = None \<or> length segments = 0 then
        FadePath d (fill_of color) (fade_opacity index currentStep direction) (duration cfg)
      else
        MaskedGroup (map (maskContent index currentStep direction cfg) segments)
          d (fill_of color) (if isWaiting index currentStep then 0 else 1))"

section \<open>Segment measurement effect of \<^verbatim>\<open>src/signature-player.js\<close>\<close>

text \<open>
  The effect of lines 34 to 59 computes the next value of the \<^verbatim>\<open>segments\<close> state from
  \<^verbatim>\<open>recordedStrokeData\<close> and \<^verbatim>\<open>config.duration\<close>. The DOM call
  \<^verbatim>\<open>getTotalLength()\<close> on a path whose \<^verbatim>\<open>d\<close> attribute was set from a value is the
  parameter \<open>getTotalLength\<close>.
\<close>

record measured =
  m_d :: "string option"
  m_width :: rat
  m_len :: rat

text \<open>Lines 40 to 42: \<^verbatim>\<open>rawStrokes\<close> when it is a non-empty array, else the legacy pair.\<close>

definition raw_of :: "recordedStroke \<Rightarrow> rawStroke list" where
  "raw_of r =
     (case rsd_rawStrokes r of
        Some (x # xs) \<Rightarrow> x # xs
      | _ \<Rightarrow> [\<lparr>rs_d = rsd_d r, rs_width = rsd_width r\<rparr>])"

text \<open>Line 47: \<^verbatim>\<open>s.width || recordedStrokeData.width || 12\<close>.\<close>

definition width_of :: "recordedStroke \<Rightarrow> rawStroke \<Rightarrow> rat" where
  "width_of r s =
     (case or_num (or_num (rs_width s) (rsd_width r)) (Some 12) of
        None \<Rightarrow> 12 | Some w \<Rightarrow> w)"

definition measure_raw ::
  "(string option \<Rightarrow> rat) \<Rightarrow> recordedStroke \<Rightarrow> rawStroke \<Rightarrow> measured" where
  "measure_raw getTotalLength r s =
     \<lparr>m_d = rs_d s, m_width = width_of r s, m_len = getTotalLength (rs_d s)\<rparr>"

text \<open>Line 50: \<^verbatim>\<open>measured.reduce((sum, s) => sum + s.len, 0)\<close>.\<close>

definition totalLen_of :: "measured list \<Rightarrow> rat" where
  "totalLen_of ms = foldl (\<lambda>sum s. js_add sum (m_len s)) 0 ms"

text \<open>Line 54: \<^verbatim>\<open>totalLen > 0 ? (s.len / totalLen) * config.duration : 0\<close>.\<close>

definition segDuration :: "rat \<Rightarrow> rat \<Rightarrow> rat \<Rightarrow> rat option" where
  "segDuration totalLen len dur =
     (if totalLen > 0 then map_option (\<lambda>q. js_mul q dur) (js_div len totalLen) else Some 0)"

text \<open>
  Lines 51 to 58: the \<^verbatim>\<open>map\<close> whose callback reads and updates \<^verbatim>\<open>accumulatedDelay\<close>;
  the accumulator is the third argument.
\<close>

fun assign_timing :: "rat \<Rightarrow> rat \<Rightarrow> rat \<Rightarrow> measured list \<Rightarrow> segment list option" where
  "assign_timing totalLen dur accumulatedDelay [] = Some []"
| "assign_timing totalLen dur accumulatedDelay (s # ss) =
     (case segDuration totalLen (m_len s) dur of
        None \<Rightarrow> None
      | Some segDur \<Rightarrow>
          (case assign_timing totalLen dur (js_add accumulatedDelay segDur) ss of
             None \<Rightarrow> None
           | Some rest \<Rightarrow>
               Some (\<lparr>seg_d = m_d s, seg_width = m_width s, seg_len = m_len s,
                      seg_duration = segDur, seg_delay = accumulatedDelay\<rparr> # rest)))"

text \<open>The whole effect: the value passed to \<^verbatim>\<open>setSegments\<close>.\<close>

definition measure_effect ::
  "(string option \<Rightarrow> rat) \<Rightarrow> recordedStroke option \<Rightarrow> config \<Rightarrow> segment list option" where
  "measure_effect getTotalLength recordedStrokeData cfg =
     (case recordedStrokeData of
        None \<Rightarrow> Some []
      | Some r \<Rightarrow>
          (let ms = map (measure_raw getTotalLength r) (raw_of r);
               totalLen = totalLen_of ms
           in assign_timing totalLen (duration cfg) 0 ms))"


section \<open>Stroke renderer of \<^verbatim>\<open>src/unnamed/part_000\<close>\<close>

text \<open>
  \<^verbatim>\<open>maskPath = recordedStrokeData?.d\<close> is truthy when it is a non-empty string. The
  component state is the measured length \<^verbatim>\<open>len\<close>.
\<close>

definition maskPath_p0 :: "recordedStroke option \<Rightarrow> string option" where
  "maskPath_p0 recordedStrokeData =
     (case recordedStrokeData of None \<Rightarrow> None | Some r \<Rightarrow> rsd_d r)"

definition truthy_str :: "string option \<Rightarrow> bool" where
  "truthy_str s = (case s of None \<Rightarrow> False | Some c \<Rightarrow> c \<noteq> [])"

definition maskWidth_p0 :: "recordedStroke option \<Rightarrow> rat" where
  "maskWidth_p0 recordedStrokeData =
     (case recordedStrokeData of None \<Rightarrow> 12
      | Some r \<Rightarrow> (case or_num (rsd_width r) (Some 12) of None \<Rightarrow> 12 | Some w \<Rightarrow> w))"

text \<open>Lines 44 to 62: the pair \<open>(targetOpacity, targetOffset)\<close>.\<close>

definition target_p0 :: "int \<Rightarrow> int \<Rightarrow> int \<Rightarrow> string option \<Rightarrow> rat \<Rightarrow> int \<times> rat" where
  "target_p0 index currentStep direction maskPath len =
     (if index < currentStep then (1, 0)
      else if index > currentStep then (0, len)
      else if direction = 1 then (1, 0)
      else ((if truthy_str maskPath then 1 else 0), len))"

datatype element_p0 =
    FadePath_p0 string string int rat
  | MaskedGroup_p0 "string option" rat rat rat rat string string int

text \<open>
  \<open>MaskedGroup_p0 maskPath maskWidth dasharray dashoffset ms d fill opacity\<close>: the single mask
  path with its transition of \<open>ms\<close> milliseconds, and the outline with its opacity.
\<close>

definition AnimatedPath_p0 ::
  "string \<Rightarrow> string option \<Rightarrow> int \<Rightarrow> int \<Rightarrow> int \<Rightarrow> recordedStroke option \<Rightarrow> config
     \<Rightarrow> rat \<Rightarrow> element_p0" where
  "AnimatedPath_p0 d color index currentStep direction recordedStrokeData cfg len =
     (let maskPath = maskPath_p0 recordedStrokeData;
          (targetOpacity, targetOffset) = target_p0 index currentStep direction maskPath len
      in if truthy_str maskPath then
           MaskedGroup_p0 maskPath (maskWidth_p0 recordedStrokeData) len targetOffset
             (duration cfg) d (fill_of color) (if index > currentStep then 0 else 1)
         else FadePath_p0 d (fill_of color) targetOpacity (duration cfg))"

section \<open>Playback controller\<close>

text \<open>
  The fetched JSON and the \<^verbatim>\<open>data\<close> state. \<^verbatim>\<open>json.paths\<close> may be missing; an empty
  array is truthy.
\<close>

record path =
  path_id :: string
  path_d :: string
  path_color :: "string option"

record json =
  json_paths :: "path list option"
  json_recordedStrokes :: "(string \<times> recordedStroke) list"

record document =
  paths :: "path list"
  recordedStrokes :: "(string \<times> recordedStroke) list"

text \<open>
  The state of one mounted \<^verbatim>\<open>SignaturePlayer\<close>: its three \<^verbatim>\<open>useState\<close> cells and the
  timeouts that are pending for it. \<open>startTimer\<close> is the time at which the pending
  \<^verbatim>\<open>setTimeout(() => setStep(0), 500)\<close> fires; \<open>timer\<close> is the pending timeout held by the
  controller effect's variable \<^verbatim>\<open>timer\<close>, with its callback. \<open>clock\<close> is the current time
  in milliseconds.
\<close>

datatype callback = NextTick | SetDirection int

record player =
  data :: "document option"
  step :: int
  direction :: int
  startTimer :: "rat option"
  timer :: "(rat \<times> callback) option"
  clock :: rat

definition mount :: player where
  "mount = \<lparr>data = None, step = - 1, direction = 1, startTimer = None, timer = None, clock = 0\<rparr>"

text \<open>\<^verbatim>\<open>setTimeout(f, ms)\<close> fires \<open>ms\<close> milliseconds from now; a negative delay counts as \<open>0\<close>.\<close>

definition fires_at :: "player \<Rightarrow> rat \<Rightarrow> rat" where
  "fires_at p ms = clock p + max 0 ms"

text \<open>
  The controller effect (lines 145 to 169) runs again whenever \<^verbatim>\<open>step\<close>, \<^verbatim>\<open>direction\<close>,
  \<^verbatim>\<open>data\<close> or \<^verbatim>\<open>config\<close> has changed: the cleanup of the previous run clears its
  \<^verbatim>\<open>timer\<close>, then the tick is armed if the document is loaded.
\<close>

definition controller_effect :: "config \<Rightarrow> player \<Rightarrow> player" where
  "controller_effect cfg p =
     (case data p of
        None \<Rightarrow> p\<lparr>timer := None\<rparr>
      | Some doc \<Rightarrow> p\<lparr>timer := Some (fires_at p (duration cfg + delay cfg), NextTick)\<rparr>)"

text \<open>
  The state setters. Setting a cell to the value it holds does not render again, so no
  effect runs; a changed value renders and runs the controller effect.
\<close>

definition setStep :: "config \<Rightarrow> int \<Rightarrow> player \<Rightarrow> player" where
  "setStep cfg v p = (if step p = v then p else controller_effect cfg (p\<lparr>step := v\<rparr>))"

definition setDirection :: "config \<Rightarrow> int \<Rightarrow> player \<Rightarrow> player" where
  "setDirection cfg v p =
     (if direction p = v then p else controller_effect cfg (p\<lparr>direction := v\<rparr>))"

definition setData :: "config \<Rightarrow> document \<Rightarrow> player \<Rightarrow> player" where
  "setData cfg doc p = controller_effect cfg (p\<lparr>data := Some doc\<rparr>)"

text \<open>
  \<^verbatim>\<open>nextTick\<close> (lines 150 to 164; \<^verbatim>\<open>src/unnamed/part_000\<close> lines 142 to 166 is the same
  function with explicit returns). It is armed only while a document is loaded.
\<close>

definition nextTick :: "config \<Rightarrow> player \<Rightarrow> player" where
  "nextTick cfg p =
     (case data p of
        None \<Rightarrow> p
      | Some doc \<Rightarrow>
          (let total = int (length (paths doc)) in
           if direction p = 1 then
             (if step p < total - 1 then setStep cfg (step p + 1) p
              else if loop cfg then
                p\<lparr>timer := Some (fires_at p (loopDelay cfg), SetDirection (- 1))\<rparr>
              else p)
           else
             (if step p > 0 then setStep cfg (step p - 1) p
              else p\<lparr>timer := Some (fires_at p (eraseDelay cfg), SetDirection 1)\<rparr>)))"

text \<open>
  The fetch effect (lines 131 to 143). One run of the effect owns an \<^verbatim>\<open>AbortController\<close>;
  \<open>aborted\<close> is its \<^verbatim>\<open>signal.aborted\<close>. \<open>fetch_then\<close> is the callback that receives the
  parsed JSON, \<open>fetch_cleanup\<close> the function the effect returns.
\<close>

record fetch_effect =
  aborted :: bool

definition fetch_effect_run :: fetch_effect where
  "fetch_effect_run = \<lparr>aborted = False\<rparr>"

definition fetch_then :: "config \<Rightarrow> fetch_effect \<Rightarrow> json \<Rightarrow> player \<Rightarrow> player" where
  "fetch_then cfg e js p =
     (if aborted e then p
      else (case json_paths js of
              None \<Rightarrow> p
            | Some ps \<Rightarrow>
                (setData cfg \<lparr>paths = ps, recordedStrokes = json_recordedStrokes js\<rparr> p)
                  \<lparr>startTimer := Some (fires_at p 500)\<rparr>))"



text \<open>
  The event loop: the pending timeout with the earliest time fires; on a tie the start
  timeout fires first, as it was registered first. \<open>None\<close> when nothing is pending.
\<close>

definition fire_start :: "config \<Rightarrow> rat \<Rightarrow> player \<Rightarrow> player" where
  "fire_start cfg t p = setStep cfg 0 (p\<lparr>startTimer := None, clock := t\<rparr>)"

definition fire_timer :: "config \<Rightarrow> rat \<Rightarrow> callback \<Rightarrow> player \<Rightarrow> player" where
  "fire_timer cfg t cb p =
     (case cb of
        NextTick \<Rightarrow> nextTick cfg (p\<lparr>timer := None, clock := t\<rparr>)
      | SetDirection v \<Rightarrow> setDirection cfg v (p\<lparr>timer := None, clock := t\<rparr>))"

definition fire_next :: "config \<Rightarrow> player \<Rightarrow> player option" where
  "fire_next cfg p =
     (case startTimer p of
        None \<Rightarrow>
          (case timer p of
             None \<Rightarrow> None
           | Some (t, cb) \<Rightarrow> Some (fire_timer cfg t cb p))
      | Some ts \<Rightarrow>
          (case timer p of
             None \<Rightarrow> Some (fire_start cfg ts p)
           | Some (t, cb) \<Rightarrow>
               if ts \<le> t then Some (fire_start cfg ts p) else Some (fire_timer cfg t cb p)))"

text \<open>The player after the next \<open>n\<close> timeouts have fired (fewer, if none is left).\<close>

fun run :: "config \<Rightarrow> nat \<Rightarrow> player \<Rightarrow> player" where
  "run cfg 0 p = p"
| "run cfg (Suc n) p = (case fire_next cfg p of None \<Rightarrow> p | Some p' \<Rightarrow> run cfg n p')"

section \<open>Documents and configurations used as concrete inputs\<close>

abbreviation three_paths :: "path list" where
  "three_paths \<equiv> [\<lparr>path_id = ''s0'', path_d = ''M0 0Z'', path_color = None\<rparr>,
                   \<lparr>path_id = ''s1'', path_d = ''M1 1Z'', path_color = None\<rparr>,
                   \<lparr>path_id = ''s2'', path_d = ''M2 2Z'', path_color = None\<rparr>]"

abbreviation one_path :: "path list" where
  "one_path \<equiv> [\<lparr>path_id = ''s0'', path_d = ''M0 0Z'', path_color = None\<rparr>]"

abbreviation fast_config :: "bool \<Rightarrow> config" where
  "fast_config l \<equiv>
     \<lparr>loop = l, duration = 100, delay = 0, loopDelay = 2000, eraseDelay = 500\<rparr>"

section \<open>Classification of a stroke by the step cursor\<close>

lemma maskContent_completed:
  "index < currentStep \<Longrightarrow>
   maskContent index currentStep dir cfg seg =
     \<lparr>mp_d = seg_d seg, mp_strokeWidth = seg_width seg, mp_strokeDasharray = seg_len seg,
      mp_strokeDashoffset = 0, mp_animation = NoAnimation, mp_seg_len = seg_len seg\<rparr>"
  by (simp add: maskContent_def isCompleted_def)

lemma maskContent_waiting:
  "currentStep < index \<Longrightarrow>
   maskContent index currentStep dir cfg seg =
     \<lparr>mp_d = seg_d seg, mp_strokeWidth = seg_width seg, mp_strokeDasharray = seg_len seg,
      mp_strokeDashoffset = seg_len seg, mp_animation = NoAnimation,
      mp_seg_len = seg_len seg\<rparr>"
  by (simp add: maskContent_def isCompleted_def isWaiting_def)

text \<open>
  Claim C1. A stroke whose index is below the current step is rendered fully revealed and
  opaque: opacity \<open>1\<close> in fade mode, and in traced mode every mask path has dash offset \<open>0\<close>
  and no animation under an outline of opacity \<open>1\<close>. A stroke whose index is above the
  current step is rendered hidden: opacity \<open>0\<close> in fade mode, and in traced mode every mask
  path has a dash offset equal to its segment length under an outline of opacity \<open>0\<close>. The
  right-hand sides do not mention the direction. This holds for the renderer of
  \<^verbatim>\<open>src/signature-player.js\<close> and for the one of \<^verbatim>\<open>src/unnamed/part_000\<close>.
\<close>

theorem C1_classification:
  "(index < currentStep \<longrightarrow>
      AnimatedPath d color index currentStep dir recordedStrokeData cfg segments =
        (if recordedStrokeData = None \<or> segments = [] then
           FadePath d (fill_of color) 1 (duration cfg)
         else MaskedGroup
           (map (\<lambda>seg. \<lparr>mp_d = seg_d seg, mp_strokeWidth = seg_width seg,
                        mp_strokeDasharray = seg_len seg, mp_strokeDashoffset = 0,
                        mp_animation = NoAnimation, mp_seg_len = seg_len seg\<rparr>) segments)
           d (fill_of color) 1) \<and>
      AnimatedPath_p0 d color index currentStep dir recordedStrokeData cfg len =
        (if truthy_str (maskPath_p0 recordedStrokeData) then
           MaskedGroup_p0 (maskPath_p0 recordedStrokeData)
             (maskWidth_p0 recordedStrokeData) len 0 (duration cfg) d (fill_of color) 1
         else FadePath_p0 d (fill_of color) 1 (duration cfg))) \<and>
   (index > currentStep \<longrightarrow>
      AnimatedPath d color index currentStep dir recordedStrokeData cfg segments =
        (if recordedStrokeData = None \<or> segments = [] then
           FadePath d (fill_of color) 0 (duration cfg)
         else MaskedGroup
           (map (\<lambda>seg. \<lparr>mp_d = seg_d seg, mp_strokeWidth = seg_width seg,
                        mp_strokeDasharray = seg_len seg, mp_strokeDashoffset = seg_len seg,
                        mp_animation = NoAnimation, mp_seg_len = seg_len seg\<rparr>) segments)
           d (fill_of color) 0) \<and>
      AnimatedPath_p0 d color index currentStep dir recordedStrokeData cfg len =
        (if truthy_str (maskPath_p0 recordedStrokeData) then
           MaskedGroup_p0 (maskPath_p0 recordedStrokeData)
             (maskWidth_p0 recordedStrokeData) len len (duration cfg) d (fill_of color) 0
         else FadePath_p0 d (fill_of color) 0 (duration cfg)))"
proof (intro conjI impI)
  assume lt: "index < currentStep"
  show "AnimatedPath d color index currentStep dir recordedStrokeData cfg segments =
        (if recordedStrokeData = None \<or> segments = [] then
           FadePath d (fill_of color) 1 (duration cfg)
         else MaskedGroup
           (map (\<lambda>seg. \<lparr>mp_d = seg_d seg, mp_strokeWidth = seg_width seg,
                        mp_strokeDasharray = seg_len seg, mp_strokeDashoffset = 0,
                        mp_animation = NoAnimation, mp_seg_len = seg_len seg\<rparr>) segments)
           d (fill_of color) 1)"
    using lt
    by (simp add: AnimatedPath_def fade_opacity_def isCompleted_def isWaiting_def
        maskContent_completed)
  show "AnimatedPath_p0 d color index currentStep dir recordedStrokeData cfg len =
        (if truthy_str (maskPath_p0 recordedStrokeData) then
           MaskedGroup_p0 (maskPath_p0 recordedStrokeData)
             (maskWidth_p0 recordedStrokeData) len 0 (duration cfg) d (fill_of color) 1
         else FadePath_p0 d (fill_of color) 1 (duration cfg))"
    using lt by (simp add: AnimatedPath_p0_def target_p0_def)
next
  assume gt: "index > currentStep"
  show "AnimatedPath d color index currentStep dir recordedStrokeData cfg segments =
        (if recordedStrokeData = None \<or> segments = [] then
           FadePath d (fill_of color) 0 (duration cfg)
         else MaskedGroup
           (map (\<lambda>seg. \<lparr>mp_d = seg_d seg, mp_strokeWidth = seg_width seg,
                        mp_strokeDasharray = seg_len seg, mp_strokeDashoffset = seg_len seg,
                        mp_animation = NoAnimation, mp_seg_len = seg_len seg\<rparr>) segments)
           d (fill_of color) 0)"
    using gt
    by (simp add: AnimatedPath_def fade_opacity_def isCompleted_def isWaiting_def
        isCurrent_def maskContent_waiting)
  show "AnimatedPath_p0 d color index currentStep dir recordedStrokeData cfg len =
        (if truthy_str (maskPath_p0 recordedStrokeData) then
           MaskedGroup_p0 (maskPath_p0 recordedStrokeData)
             (maskWidth_p0 recordedStrokeData) len len (duration cfg) d (fill_of color) 0
         else FadePath_p0 d (fill_of color) 0 (duration cfg))"
    using gt by (simp add: AnimatedPath_p0_def target_p0_def)
qed

theorem C1_classification_witness:
  "(0::int) < 2 \<and> (3::int) > 2 \<and>
   AnimatedPath ''M0 0'' None 0 2 (- 1)
     (Some \<lparr>rsd_d = Some ''M0 0L9 0'', rsd_width = None, rsd_rawStrokes = None\<rparr>)
     DEFAULT_CONFIG
     [\<lparr>seg_d = Some ''M0 0L9 0'', seg_width = 12, seg_len = 9, seg_duration = 1000,
       seg_delay = 0\<rparr>] =
   MaskedGroup
     [\<lparr>mp_d = Some ''M0 0L9 0'', mp_strokeWidth = 12, mp_strokeDasharray = 9,
       mp_strokeDashoffset = 0, mp_animation = NoAnimation, mp_seg_len = 9\<rparr>]
     ''M0 0'' ''#000'' 1 \<and>
   AnimatedPath_p0 ''M0 0'' None 3 2 1 None DEFAULT_CONFIG 0 =
     FadePath_p0 ''M0 0'' ''#000'' 0 1000"
  using C1_classification [of 0 2 "''M0 0''" None "- 1"
      "Some \<lparr>rsd_d = Some ''M0 0L9 0'', rsd_width = None, rsd_rawStrokes = None\<rparr>"
      DEFAULT_CONFIG
      "[\<lparr>seg_d = Some ''M0 0L9 0'', seg_width = 12, seg_len = 9, seg_duration = 1000,
         seg_delay = 0\<rparr>]" 0]
    C1_classification [of 3 2 "''M0 0''" None 1 None DEFAULT_CONFIG "[]" 0]
  by (simp add: fill_of_def DEFAULT_CONFIG_def maskPath_p0_def truthy_str_def)

section \<open>Fade mode in the two renderers\<close>

text \<open>
  Claim C7. Without a pen trace, the current stroke is rendered with opacity \<open>0\<close> when the
  direction is \<open>-1\<close>, which is the element rendered for a pending stroke; and whenever
  \<^verbatim>\<open>maskPath\<close> is falsy, the opacity computed by \<^verbatim>\<open>src/unnamed/part_000\<close> (through the
  \<^verbatim>\<open>maskPath ? 1 : 0\<close> ternary) equals the opacity computed by the direction branch of
  \<^verbatim>\<open>src/signature-player.js\<close>, for every index, step and direction.
\<close>

theorem C7_fade_backward_hidden:
  "AnimatedPath d color index index (- 1) None cfg segments =
     FadePath d (fill_of color) 0 (duration cfg) \<and>
   AnimatedPath d color index index (- 1) recordedStrokeData cfg [] =
     FadePath d (fill_of color) 0 (duration cfg) \<and>
   AnimatedPath d color index index (- 1) None cfg segments =
     AnimatedPath d color index (index - 1) dir None cfg segments \<and>
   AnimatedPath_p0 d color index index (- 1) None cfg len =
     FadePath_p0 d (fill_of color) 0 (duration cfg) \<and>
   AnimatedPath_p0 d color index index (- 1) None cfg len =
     AnimatedPath_p0 d color index (index - 1) dir None cfg len \<and>
   fst (target_p0 index currentStep dir None len) =
     fade_opacity index currentStep dir \<and>
   fst (target_p0 index currentStep dir (Some []) len) =
     fade_opacity index currentStep dir"
  by (auto simp add: AnimatedPath_def AnimatedPath_p0_def fade_opacity_def target_p0_def
      isCompleted_def isCurrent_def truthy_str_def maskPath_p0_def)

section \<open>Properties of the double arithmetic\<close>






text \<open>
  Two known values: the double printed as \<^verbatim>\<open>0.1\<close>, and a tie, \<open>2\<^sup>5\<^sup>3 + 1\<close>, which goes to
  the even significand.
\<close>

lemma round64_tenth: "round64 (1 / 10) = 3602879701896397 / 2 ^ 55"
  by code_simp

lemma round64_tie: "round64 (2 ^ 53 + 1) = 2 ^ 53" "round64 (2 ^ 53 + 3) = 2 ^ 53 + 4"
  by code_simp+







section \<open>Timing of the segments of a trace\<close>

lemma segDuration_pos:
  "0 < totalLen \<Longrightarrow>
   segDuration totalLen len dur = Some (js_mul (round64 (len / totalLen)) dur)"
  by (simp add: segDuration_def js_div_def)

lemma segDuration_guard: "\<not> 0 < totalLen \<Longrightarrow> segDuration totalLen len dur = Some 0"
  by (simp add: segDuration_def)

lemma segDuration_total: "\<exists>x. segDuration totalLen len dur = Some x"
  by (cases "0 < totalLen") (simp_all add: segDuration_pos segDuration_guard)


lemma assign_timing_total: "\<exists>segs. assign_timing totalLen dur acc ms = Some segs"
proof (induction ms arbitrary: acc)
  case Nil
  show ?case by simp
next
  case (Cons s ss)
  obtain x where x: "segDuration totalLen (m_len s) dur = Some x"
    using segDuration_total by blast
  obtain rest where "assign_timing totalLen dur (js_add acc x) ss = Some rest"
    using Cons.IH by blast
  with x show ?case by simp
qed

lemma assign_timing_length:
  "assign_timing totalLen dur acc ms = Some segs \<Longrightarrow> length segs = length ms"
  by (induction ms arbitrary: acc segs) (auto split: option.splits)








lemma assign_timing_guard:
  "\<not> 0 < totalLen \<Longrightarrow> assign_timing totalLen dur acc ms = Some segs \<Longrightarrow>
   \<forall>seg\<in>set segs. seg_duration seg = 0 \<and> seg_delay seg = acc"
proof (induction ms arbitrary: segs)
  case Nil
  then show ?case by simp
next
  case (Cons s ss)
  have acc: "js_add acc 0 = acc" by (simp add: js_add_def)
  from Cons.prems obtain rest where
    rest: "assign_timing totalLen dur acc ss = Some rest" and
    segs: "segs = \<lparr>seg_d = m_d s, seg_width = m_width s, seg_len = m_len s,
                    seg_duration = 0, seg_delay = acc\<rparr> # rest"
    by (auto simp: segDuration_guard acc split: option.splits)
  from Cons.IH [OF Cons.prems(1) rest] segs show ?case by simp
qed

text \<open>
  Claim C10. When the measured total length of a trace is \<open>0\<close>, the guard
  \<^verbatim>\<open>totalLen > 0\<close> keeps the division from being evaluated: the effect produces a segment
  list (no non-finite number arises), every segment has duration \<open>0\<close> and delay \<open>0\<close>, and
  the animation of every mask path rendered from it carries only the numbers \<open>0\<close> and
  \<open>config.duration\<close>.
\<close>

theorem C10_zero_total_length:
  assumes "totalLen_of (map (measure_raw getTotalLength r) (raw_of r)) = 0"
  shows "\<exists>segs. measure_effect getTotalLength (Some r) cfg = Some segs \<and>
           length segs = length (raw_of r) \<and>
           (\<forall>seg\<in>set segs.
              seg_duration seg = 0 \<and> seg_delay seg = 0 \<and>
              mp_animation (maskContent index currentStep dir cfg seg)
                \<in> {NoAnimation, Dash 0 0, Undash 0 (duration cfg)})"
proof -
  define ms where "ms = map (measure_raw getTotalLength r) (raw_of r)"
  have T: "\<not> 0 < totalLen_of ms" using assms by (simp add: ms_def)
  obtain segs where segs: "assign_timing (totalLen_of ms) (duration cfg) 0 ms = Some segs"
    using assign_timing_total by blast
  have eff: "measure_effect getTotalLength (Some r) cfg = Some segs"
    using segs by (simp add: measure_effect_def Let_def ms_def)
  have len: "length segs = length (raw_of r)"
    using assign_timing_length [OF segs] by (simp add: ms_def)
  have zero: "\<forall>seg\<in>set segs. seg_duration seg = 0 \<and> seg_delay seg = 0"
    using assign_timing_guard [OF T segs] .
  have anim: "mp_animation (maskContent index currentStep dir cfg seg)
                \<in> {NoAnimation, Dash 0 0, Undash 0 (duration cfg)}"
    if "seg \<in> set segs" for seg
    using zero that by (simp add: maskContent_def js_add_def js_sub_def)
  from eff len zero anim show ?thesis by blast
qed

theorem C10_zero_total_length_witness:
  "totalLen_of (map (measure_raw (\<lambda>d. 0)
         \<lparr>rsd_d = Some ''M5 5'', rsd_width = Some 4, rsd_rawStrokes = None\<rparr>)
       (raw_of \<lparr>rsd_d = Some ''M5 5'', rsd_width = Some 4, rsd_rawStrokes = None\<rparr>)) = 0 \<and>
   measure_effect (\<lambda>d. 0)
       (Some \<lparr>rsd_d = Some ''M5 5'', rsd_width = Some 4, rsd_rawStrokes = None\<rparr>)
       DEFAULT_CONFIG =
     Some [\<lparr>seg_d = Some ''M5 5'', seg_width = 4, seg_len = 0, seg_duration = 0,
            seg_delay = 0\<rparr>]"
proof -
  let ?r = "\<lparr>rsd_d = Some ''M5 5'', rsd_width = Some 4, rsd_rawStrokes = None\<rparr>"
  have h: "totalLen_of (map (measure_raw (\<lambda>d. 0) ?r) (raw_of ?r)) = 0"
    by (simp add: raw_of_def totalLen_of_def measure_raw_def js_add_def)
  from C10_zero_total_length [OF h, of DEFAULT_CONFIG 0 0 1] obtain segs where
    segs: "measure_effect (\<lambda>d. 0) (Some ?r) DEFAULT_CONFIG = Some segs"
    by blast
  have "measure_effect (\<lambda>d. 0) (Some ?r) DEFAULT_CONFIG =
     Some [\<lparr>seg_d = Some ''M5 5'', seg_width = 4, seg_len = 0, seg_duration = 0,
            seg_delay = 0\<rparr>]"
    by (simp add: measure_effect_def raw_of_def totalLen_of_def measure_raw_def width_of_def
        or_num_def truthy_num_def segDuration_def js_add_def)
  with h segs show ?thesis by simp
qed

section \<open>Time reversal of the segment animations\<close>









section \<open>A trace entry without geometry\<close>

lemma raw_of_nonempty: "raw_of r \<noteq> []"
  by (simp add: raw_of_def split: option.splits list.splits)

text \<open>The effect never delivers an empty list for a present entry.\<close>

lemma measure_effect_nonempty:
  "\<exists>seg segs. measure_effect getTotalLength (Some r) cfg = Some (seg # segs)"
proof -
  define ms where "ms = map (measure_raw getTotalLength r) (raw_of r)"
  obtain xs where xs: "assign_timing (totalLen_of ms) (duration cfg) 0 ms = Some xs"
    using assign_timing_total by blast
  from assign_timing_length [OF xs] raw_of_nonempty [of r] have "xs \<noteq> []"
    by (auto simp: ms_def)
  then obtain seg segs where "xs = seg # segs" by (cases xs) auto
  with xs have "measure_effect getTotalLength (Some r) cfg = Some (seg # segs)"
    by (simp add: measure_effect_def Let_def ms_def)
  then show ?thesis by blast
qed

text \<open>
  Claim C8 says that a stroke whose trace entry is present with an empty segment list is
  rendered in fade mode, like a stroke without an entry. For the entry
  \<^verbatim>\<open>{ rawStrokes: [] }\<close>, which has no legacy \<^verbatim>\<open>d\<close> either, lines 40 to 42 build one raw
  stroke whose \<^verbatim>\<open>d\<close> is \<^verbatim>\<open>undefined\<close>. The effect always delivers exactly one segment
  without geometry for it, so the test \<^verbatim>\<open>segments.length === 0\<close> of line 62 fails and the
  stroke is drawn through a mask without geometry: once completed it is a masked group,
  where a stroke without an entry is a plain path of opacity \<open>1\<close>. The renderer of
  \<^verbatim>\<open>src/unnamed/part_000\<close> renders the same entry as a plain path.
\<close>

theorem C8_entry_without_geometry:
  "(\<exists>seg. measure_effect getTotalLength
        (Some \<lparr>rsd_d = None, rsd_width = w, rsd_rawStrokes = Some []\<rparr>) cfg = Some [seg] \<and>
      seg_d seg = None) \<and>
   measure_effect (\<lambda>d. 0)
     (Some \<lparr>rsd_d = None, rsd_width = None, rsd_rawStrokes = Some []\<rparr>) DEFAULT_CONFIG =
     Some [\<lparr>seg_d = None, seg_width = 12, seg_len = 0, seg_duration = 0, seg_delay = 0\<rparr>] \<and>
   AnimatedPath ''M0 0L9 9Z'' None 0 1 1
     (Some \<lparr>rsd_d = None, rsd_width = None, rsd_rawStrokes = Some []\<rparr>) DEFAULT_CONFIG
     [\<lparr>seg_d = None, seg_width = 12, seg_len = 0, seg_duration = 0, seg_delay = 0\<rparr>] =
     MaskedGroup
       [\<lparr>mp_d = None, mp_strokeWidth = 12, mp_strokeDasharray = 0, mp_strokeDashoffset = 0,
         mp_animation = NoAnimation, mp_seg_len = 0\<rparr>]
       ''M0 0L9 9Z'' ''#000'' 1 \<and>
   AnimatedPath ''M0 0L9 9Z'' None 0 1 1 None DEFAULT_CONFIG [] =
     FadePath ''M0 0L9 9Z'' ''#000'' 1 1000 \<and>
   AnimatedPath_p0 ''M0 0L9 9Z'' None 0 1 1
     (Some \<lparr>rsd_d = None, rsd_width = None, rsd_rawStrokes = Some []\<rparr>) DEFAULT_CONFIG 0 =
     FadePath_p0 ''M0 0L9 9Z'' ''#000'' 1 1000"
proof (intro conjI)
  obtain x where x: "segDuration
      (totalLen_of [measure_raw getTotalLength
          \<lparr>rsd_d = None, rsd_width = w, rsd_rawStrokes = Some []\<rparr>
          \<lparr>rs_d = None, rs_width = w\<rparr>])
      (getTotalLength None) (duration cfg) = Some x"
    using segDuration_total by blast
  then show "\<exists>seg. measure_effect getTotalLength
        (Some \<lparr>rsd_d = None, rsd_width = w, rsd_rawStrokes = Some []\<rparr>) cfg = Some [seg] \<and>
      seg_d seg = None"
    by (simp add: measure_effect_def raw_of_def measure_raw_def)
qed (simp_all add: measure_effect_def raw_of_def totalLen_of_def measure_raw_def width_of_def
      or_num_def truthy_num_def segDuration_def js_add_def AnimatedPath_def maskContent_def
      isCompleted_def isWaiting_def fade_opacity_def fill_of_def DEFAULT_CONFIG_def
      AnimatedPath_p0_def target_p0_def maskPath_p0_def truthy_str_def)

section \<open>The playback controller\<close>

lemmas controller_defs =
  fetch_then_def fetch_effect_run_def mount_def setData_def controller_effect_def fires_at_def
  fire_next_def fire_start_def fire_timer_def nextTick_def setStep_def setDirection_def

lemma nextTick_step:
  "data p = Some doc \<Longrightarrow>
   step (nextTick cfg p) =
     (if direction p = 1 \<and> step p < int (length (paths doc)) - 1 then step p + 1
      else if direction p \<noteq> 1 \<and> 0 < step p then step p - 1
      else step p) \<and>
   direction (nextTick cfg p) = direction p"
  by (simp add: nextTick_def setStep_def controller_effect_def Let_def)

lemma halts_once_started:
  assumes "\<not> loop cfg" "data p = Some doc" "direction p = 1"
    "int (length (paths doc)) - 1 \<le> step p" "startTimer p = None"
    "timer p = Some (t, NextTick)"
  shows "run cfg (Suc n) p = p\<lparr>timer := None, clock := t\<rparr>"
proof -
  have one: "fire_next cfg p = Some (p\<lparr>timer := None, clock := t\<rparr>)"
    using assms by (simp add: fire_next_def fire_timer_def nextTick_def Let_def)
  have halt: "fire_next cfg (p\<lparr>timer := None, clock := t\<rparr>) = None"
    using assms by (simp add: fire_next_def)
  show ?thesis using one halt by (cases n) simp_all
qed

lemma fire_next_nonneg:
  assumes "0 \<le> step p" "fire_next cfg p = Some p'"
  shows "0 \<le> step p'"
proof -
  have s: "0 \<le> step (fire_start cfg t p)" for t
    by (simp add: fire_start_def setStep_def controller_effect_def split: option.splits)
  have d: "0 \<le> step (fire_timer cfg t cb p)" for t cb
    using assms(1)
    by (cases cb)
      (auto simp add: fire_timer_def nextTick_def setStep_def setDirection_def
        controller_effect_def Let_def split: option.splits)
  from assms(2) s d show ?thesis
    by (auto simp add: fire_next_def split: option.splits if_splits)
qed

lemma run_nonneg: "0 \<le> step p \<Longrightarrow> 0 \<le> step (run cfg n p)"
proof (induction n arbitrary: p)
  case 0
  then show ?case by simp
next
  case (Suc n)
  show ?case
  proof (cases "fire_next cfg p")
    case None
    with Suc.prems show ?thesis by simp
  next
    case (Some p')
    with Suc.prems have "0 \<le> step p'" using fire_next_nonneg by blast
    with Suc.IH Some show ?thesis by simp
  qed
qed

lemma run_halted: "fire_next cfg p = None \<Longrightarrow> run cfg n p = p"
  by (cases n) simp_all

lemma run_Suc_last:
  "run cfg (Suc n) p =
     (case fire_next cfg (run cfg n p) of None \<Rightarrow> run cfg n p | Some p' \<Rightarrow> p')"
proof (induction n arbitrary: p)
  case 0
  show ?case by (simp split: option.splits)
next
  case (Suc n)
  show ?case
  proof (cases "fire_next cfg p")
    case None
    then show ?thesis by (simp add: run_halted)
  next
    case (Some q)
    have "run cfg (Suc (Suc n)) p = run cfg (Suc n) q" using Some by simp
    also have "\<dots> = (case fire_next cfg (run cfg n q) of None \<Rightarrow> run cfg n q | Some p' \<Rightarrow> p')"
      by (rule Suc.IH)
    also have "run cfg n q = run cfg (Suc n) p" using Some by simp
    finally show ?thesis .
  qed
qed

text \<open>
  When the start timeout is due no later than the first tick (\<open>500 \<le> duration + delay\<close>)
  and the document has a stroke, every state reached after a load keeps the step between
  \<open>-1\<close> and \<open>total - 1\<close>; the step is \<open>-1\<close> exactly while the start timeout is pending;
  every event leaves the step, or adds \<open>1\<close> in forward direction below the last stroke, or
  subtracts \<open>1\<close> in backward direction above \<open>0\<close>; and the direction changes to \<open>-1\<close> only
  at the last stroke and to \<open>1\<close> only at step \<open>0\<close>.
\<close>

lemma controller_invariant:
  assumes interval: "500 \<le> duration cfg + delay cfg"
    and js: "json_paths js = Some ps" and ps: "ps \<noteq> []"
  shows "let p = run cfg n (fetch_then cfg fetch_effect_run js mount);
             p' = run cfg (Suc n) (fetch_then cfg fetch_effect_run js mount);
             total = int (length ps)
         in - 1 \<le> step p \<and> step p \<le> total - 1 \<and>
            (step p = - 1 \<longleftrightarrow> startTimer p \<noteq> None) \<and>
            (step p' = step p \<or>
             step p' = step p + 1 \<and> direction p = 1 \<and> step p < total - 1 \<or>
             step p' = step p - 1 \<and> direction p = - 1 \<and> 0 < step p) \<and>
            (direction p' \<noteq> direction p \<longrightarrow>
               direction p' = - 1 \<and> step p = total - 1 \<or>
               direction p' = 1 \<and> step p = 0)"
proof -
  define N where "N = int (length ps)"
  define doc where "doc = \<lparr>paths = ps, recordedStrokes = json_recordedStrokes js\<rparr>"
  define Inv where "Inv = (\<lambda>p::player. data p = Some doc \<and>
    (case startTimer p of
       Some ts \<Rightarrow> step p = - 1 \<and> direction p = 1 \<and> (\<exists>tt. timer p = Some (tt, NextTick) \<and> ts \<le> tt)
     | None \<Rightarrow> 0 \<le> step p \<and> step p \<le> N - 1 \<and> (direction p = 1 \<or> direction p = - 1) \<and>
         (case timer p of
            None \<Rightarrow> True
          | Some (t, NextTick) \<Rightarrow> True
          | Some (t, SetDirection v) \<Rightarrow>
              v = - 1 \<and> direction p = 1 \<and> step p = N - 1 \<or>
              v = 1 \<and> direction p = - 1 \<and> step p = 0)))"
  define Tr where "Tr = (\<lambda>(p::player) (p'::player).
     (step p' = step p \<or>
      step p' = step p + 1 \<and> direction p = 1 \<and> step p < N - 1 \<or>
      step p' = step p - 1 \<and> direction p = - 1 \<and> 0 < step p) \<and>
     (direction p' \<noteq> direction p \<longrightarrow>
        direction p' = - 1 \<and> step p = N - 1 \<or> direction p' = 1 \<and> step p = 0))"
  have N: "1 \<le> N" "int (length (paths doc)) = N"
    using ps by (cases ps) (simp_all add: N_def doc_def)
  let ?p0 = "fetch_then cfg fetch_effect_run js mount"
  have init: "Inv ?p0"
    using interval js
    by (simp add: Inv_def doc_def fetch_then_def fetch_effect_run_def mount_def setData_def
        controller_effect_def fires_at_def)
  have start: "Inv (fire_start cfg ts p) \<and> Tr p (fire_start cfg ts p)"
    if "Inv p" "startTimer p = Some ts" for p ts
    using that N
    by (auto simp add: Inv_def Tr_def fire_start_def setStep_def controller_effect_def)
  have tick: "Inv (fire_timer cfg t NextTick p) \<and> Tr p (fire_timer cfg t NextTick p)"
    if "Inv p" "startTimer p = None" "timer p = Some (t, NextTick)" for p t
    using that N
    by (auto simp add: Inv_def Tr_def fire_timer_def nextTick_def setStep_def
        controller_effect_def Let_def)
  have dwell: "Inv (fire_timer cfg t (SetDirection v) p) \<and>
               Tr p (fire_timer cfg t (SetDirection v) p)"
    if "Inv p" "startTimer p = None" "timer p = Some (t, SetDirection v)" for p t v
    using that N
    by (auto simp add: Inv_def Tr_def fire_timer_def setDirection_def controller_effect_def)
  have step: "Inv p' \<and> Tr p p'" if "Inv p" "fire_next cfg p = Some p'" for p p'
  proof (cases "startTimer p")
    case None
    with that(2) obtain t cb where t: "timer p = Some (t, cb)" "p' = fire_timer cfg t cb p"
      by (auto simp add: fire_next_def split: option.splits)
    show ?thesis
      using tick [OF that(1) None] dwell [OF that(1) None] t by (cases cb) auto
  next
    case (Some ts)
    with that(1) obtain tt where "timer p = Some (tt, NextTick)" "ts \<le> tt"
      by (auto simp add: Inv_def)
    with that(2) Some have "p' = fire_start cfg ts p"
      by (simp add: fire_next_def)
    with start [OF that(1) Some] show ?thesis by simp
  qed
  have inv: "Inv (run cfg n ?p0)" for n
  proof (induction n)
    case 0
    show ?case using init by simp
  next
    case (Suc n)
    show ?case
      using Suc.IH step [of "run cfg n ?p0"]
      by (simp only: run_Suc_last split: option.splits) auto
  qed
  have tr: "Tr (run cfg n ?p0) (run cfg (Suc n) ?p0)"
    using inv [of n] step [of "run cfg n ?p0"]
    by (simp only: run_Suc_last split: option.splits) (auto simp add: Tr_def)
  have range: "- 1 \<le> step p \<and> step p \<le> N - 1 \<and> (step p = - 1 \<longleftrightarrow> startTimer p \<noteq> None)"
    if "Inv p" for p
    using that N by (auto simp add: Inv_def split: option.splits)
  from range [OF inv [of n]] tr show ?thesis
    by (simp add: Let_def Tr_def N_def)
qed

text \<open>
  Claim C2 says that the step changes only by \<open>+1\<close> or \<open>-1\<close> on a tick, apart from one
  jump from \<open>-1\<close> to \<open>0\<close> made by the start timeout. The controller effect arms the tick as
  soon as the document is loaded, while the step is still \<open>-1\<close>, and the start timeout is
  not skipped when ticks have already moved the step. With \<^verbatim>\<open>{ duration: 100, delay: 0 }\<close>
  and three strokes, four ticks fire before the start timeout: the step is \<open>2\<close> at time
  \<open>400\<close>, and the fifth event, the start timeout at time \<open>500\<close>, sets it from \<open>2\<close> to \<open>0\<close>
  and cancels the pending change of direction.
\<close>

theorem C2_start_timeout_resets_step:
  "run (fast_config True) 4
     (fetch_then (fast_config True) fetch_effect_run
        \<lparr>json_paths = Some three_paths, json_recordedStrokes = []\<rparr> mount) =
     \<lparr>data = Some \<lparr>paths = three_paths, recordedStrokes = []\<rparr>,
      step = 2, direction = 1, startTimer = Some 500,
      timer = Some (2400, SetDirection (- 1)), clock = 400\<rparr> \<and>
   run (fast_config True) 5
     (fetch_then (fast_config True) fetch_effect_run
        \<lparr>json_paths = Some three_paths, json_recordedStrokes = []\<rparr> mount) =
     \<lparr>data = Some \<lparr>paths = three_paths, recordedStrokes = []\<rparr>,
      step = 0, direction = 1, startTimer = None,
      timer = Some (600, NextTick), clock = 500\<rparr>"
  by (simp add: controller_defs eval_nat_numeral)

text \<open>
  Claim C5 says that with \<^verbatim>\<open>loop = false\<close> the controller halts for good once the tick
  fires at the last stroke. With \<^verbatim>\<open>{ loop: false, duration: 100, delay: 0 }\<close> and three
  strokes, the tick at time \<open>400\<close> schedules nothing, but the start timeout is still
  pending: at time \<open>500\<close> it sets the step from \<open>2\<close> to \<open>0\<close>, and the controller effect arms
  a tick again.
\<close>

theorem C5_restart_after_halt:
  "run (fast_config False) 4
     (fetch_then (fast_config False) fetch_effect_run
        \<lparr>json_paths = Some three_paths, json_recordedStrokes = []\<rparr> mount) =
     \<lparr>data = Some \<lparr>paths = three_paths, recordedStrokes = []\<rparr>,
      step = 2, direction = 1, startTimer = Some 500, timer = None, clock = 400\<rparr> \<and>
   run (fast_config False) 5
     (fetch_then (fast_config False) fetch_effect_run
        \<lparr>json_paths = Some three_paths, json_recordedStrokes = []\<rparr> mount) =
     \<lparr>data = Some \<lparr>paths = three_paths, recordedStrokes = []\<rparr>,
      step = 0, direction = 1, startTimer = None,
      timer = Some (600, NextTick), clock = 500\<rparr>"
  by (simp add: controller_defs eval_nat_numeral)

text \<open>
  Claim C6 says that after the tick at step \<open>0\<close> in backward direction and the dwell, the
  next tick moves the step from \<open>0\<close> to \<open>1\<close>. With a single stroke that tick finds
  \<open>step = total - 1\<close>: the step stays \<open>0\<close> and the change to backward direction is
  scheduled. The run below is the default configuration on a document of one stroke; its
  third event switches to backward direction, the fourth is the tick at step \<open>0\<close>.
\<close>

theorem C6_single_stroke_counterexample:
  "run DEFAULT_CONFIG 3
     (fetch_then DEFAULT_CONFIG fetch_effect_run
        \<lparr>json_paths = Some one_path, json_recordedStrokes = []\<rparr> mount) =
     \<lparr>data = Some \<lparr>paths = one_path, recordedStrokes = []\<rparr>,
      step = 0, direction = - 1, startTimer = None,
      timer = Some (4700, NextTick), clock = 3600\<rparr> \<and>
   run DEFAULT_CONFIG 4
     (fetch_then DEFAULT_CONFIG fetch_effect_run
        \<lparr>json_paths = Some one_path, json_recordedStrokes = []\<rparr> mount) =
     \<lparr>data = Some \<lparr>paths = one_path, recordedStrokes = []\<rparr>,
      step = 0, direction = - 1, startTimer = None,
      timer = Some (5200, SetDirection 1), clock = 4700\<rparr> \<and>
   run DEFAULT_CONFIG 5
     (fetch_then DEFAULT_CONFIG fetch_effect_run
        \<lparr>json_paths = Some one_path, json_recordedStrokes = []\<rparr> mount) =
     \<lparr>data = Some \<lparr>paths = one_path, recordedStrokes = []\<rparr>,
      step = 0, direction = 1, startTimer = None,
      timer = Some (6300, NextTick), clock = 5200\<rparr> \<and>
   run DEFAULT_CONFIG 6
     (fetch_then DEFAULT_CONFIG fetch_effect_run
        \<lparr>json_paths = Some one_path, json_recordedStrokes = []\<rparr> mount) =
     \<lparr>data = Some \<lparr>paths = one_path, recordedStrokes = []\<rparr>,
      step = 0, direction = 1, startTimer = None,
      timer = Some (8300, SetDirection (- 1)), clock = 6300\<rparr>"
  by (simp add: controller_defs eval_nat_numeral DEFAULT_CONFIG_def)

text \<open>
  Claim C6 as amended. When a tick fires with backward direction at step \<open>0\<close>, it leaves
  the step unchanged and schedules one change of direction to forward after
  \<open>eraseDelay\<close>; that change arms the next tick after \<open>duration + delay\<close>; and this tick
  moves the step from \<open>0\<close> to \<open>1\<close> when the document has at least two strokes, and leaves
  it at \<open>0\<close> otherwise. With no start timeout pending and the tick as the pending timeout,
  these are the next three events. Once the step is not negative, no event makes it
  negative again.
\<close>

theorem C6_end_of_erase:
  assumes "data p = Some doc" "direction p = - 1" "step p = 0"
  shows "let p1 = fire_timer cfg t NextTick p;
             t2 = t + max 0 (eraseDelay cfg);
             p2 = fire_timer cfg t2 (SetDirection 1) p1;
             t3 = t2 + max 0 (duration cfg + delay cfg);
             p3 = fire_timer cfg t3 NextTick p2
         in step p1 = 0 \<and> direction p1 = - 1 \<and> timer p1 = Some (t2, SetDirection 1) \<and>
            step p2 = 0 \<and> direction p2 = 1 \<and> timer p2 = Some (t3, NextTick) \<and>
            step p3 = (if 2 \<le> length (paths doc) then 1 else 0) \<and> direction p3 = 1 \<and>
            (startTimer p = None \<and> timer p = Some (t, NextTick) \<longrightarrow>
               run cfg 1 p = p1 \<and> run cfg 2 p = p2 \<and> run cfg 3 p = p3) \<and>
            (0 \<le> step q \<longrightarrow> 0 \<le> step (run cfg n q))"
proof -
  define p1 where "p1 = fire_timer cfg t NextTick p"
  define t2 where "t2 = t + max 0 (eraseDelay cfg)"
  define p2 where "p2 = fire_timer cfg t2 (SetDirection 1) p1"
  define t3 where "t3 = t2 + max 0 (duration cfg + delay cfg)"
  define p3 where "p3 = fire_timer cfg t3 NextTick p2"
  have p1: "p1 = p\<lparr>timer := Some (t2, SetDirection 1), clock := t\<rparr>"
    using assms
    by (simp add: p1_def t2_def fire_timer_def nextTick_def fires_at_def Let_def)
  have p2: "p2 = p\<lparr>direction := 1, timer := Some (t3, NextTick), clock := t2\<rparr>"
    using assms
    by (simp add: p2_def p1 t3_def fire_timer_def setDirection_def controller_effect_def
        fires_at_def)
  have p3: "step p3 = (if 2 \<le> length (paths doc) then 1 else 0) \<and> direction p3 = 1"
    using assms nextTick_step [of "p2\<lparr>timer := None, clock := t3\<rparr>" doc cfg]
    by (auto simp add: p3_def p2 fire_timer_def)
  have sched: "run cfg 1 p = p1 \<and> run cfg 2 p = p2 \<and> run cfg 3 p = p3"
    if "startTimer p = None \<and> timer p = Some (t, NextTick)"
  proof -
    have 1: "fire_next cfg p = Some p1"
      using that by (simp add: fire_next_def p1_def)
    have 2: "fire_next cfg p1 = Some p2"
      using that by (simp add: fire_next_def p1 p2_def)
    have 3: "fire_next cfg p2 = Some p3"
      using that by (simp add: fire_next_def p2 p3_def)
    show ?thesis using 1 2 3 by (simp add: eval_nat_numeral)
  qed
  have "step p1 = 0 \<and> direction p1 = - 1 \<and> timer p1 = Some (t2, SetDirection 1) \<and>
        step p2 = 0 \<and> direction p2 = 1 \<and> timer p2 = Some (t3, NextTick)"
    using assms by (simp add: p1 p2)
  with p3 sched run_nonneg [of q cfg n] show ?thesis
    unfolding Let_def p1_def [symmetric] t2_def [symmetric] p2_def [symmetric]
      t3_def [symmetric] p3_def [symmetric]
    by blast
qed

theorem C6_end_of_erase_witness:
  "data \<lparr>data = Some \<lparr>paths = three_paths, recordedStrokes = []\<rparr>, step = 0,
          direction = - 1, startTimer = None, timer = Some (9100, NextTick), clock = 8000\<rparr> =
     Some \<lparr>paths = three_paths, recordedStrokes = []\<rparr> \<and>
   direction \<lparr>data = Some \<lparr>paths = three_paths, recordedStrokes = []\<rparr>, step = 0,
          direction = - 1, startTimer = None, timer = Some (9100, NextTick), clock = 8000\<rparr> =
     - 1 \<and>
   step \<lparr>data = Some \<lparr>paths = three_paths, recordedStrokes = []\<rparr>, step = 0,
          direction = - 1, startTimer = None, timer = Some (9100, NextTick), clock = 8000\<rparr> =
     0 \<and>
   step (run DEFAULT_CONFIG 3
     \<lparr>data = Some \<lparr>paths = three_paths, recordedStrokes = []\<rparr>, step = 0,
      direction = - 1, startTimer = None, timer = Some (9100, NextTick), clock = 8000\<rparr>) = 1 \<and>
   direction (run DEFAULT_CONFIG 3
     \<lparr>data = Some \<lparr>paths = three_paths, recordedStrokes = []\<rparr>, step = 0,
      direction = - 1, startTimer = None, timer = Some (9100, NextTick), clock = 8000\<rparr>) = 1"
proof -
  let ?p = "\<lparr>data = Some \<lparr>paths = three_paths, recordedStrokes = []\<rparr>, step = 0,
      direction = - 1, startTimer = None, timer = Some (9100, NextTick), clock = 8000\<rparr>"
  have h: "data ?p = Some \<lparr>paths = three_paths, recordedStrokes = []\<rparr>"
    "direction ?p = - 1" "step ?p = 0"
    by simp_all
  from C6_end_of_erase [OF h, of DEFAULT_CONFIG 9100 ?p 3] show ?thesis
    by (simp add: Let_def)
qed


end
